theory Spec2Isabelle
  imports Main "HOL-Library.Multiset"
begin

section \<open>Employee records (employee.py)\<close>

text \<open>
  The three shift kinds of \<open>class Shift(Enum)\<close>, in the order the enumeration lists them.
\<close>

datatype Shift = MORNING | AFTERNOON | EVENING

definition MIN_EMPLOYEES_PER_SHIFT :: int where
  "MIN_EMPLOYEES_PER_SHIFT = 2"

definition MAX_EMPLOYEES_PER_SHIFT :: int where
  "MAX_EMPLOYEES_PER_SHIFT = 8"

definition MAX_WORK_DAYS_PER_WEEK :: int where
  "MAX_WORK_DAYS_PER_WEEK = 5"

text \<open>
  \<open>class Employee\<close>: the two dictionaries are maps from the day (a Python int, so any
  integer is a possible key) to a shift; \<open>days_worked\<close> is a Python int.
\<close>

record Employee =
  name :: string
  preferences :: "int \<rightharpoonup> Shift"
  schedule :: "int \<rightharpoonup> Shift"
  days_worked :: int

text \<open>\<open>Employee.__init__\<close>: both dictionaries empty, no day worked.\<close>

definition new_employee :: "string \<Rightarrow> Employee" where
  "new_employee n =
     \<lparr>name = n, preferences = Map.empty, schedule = Map.empty, days_worked = 0\<rparr>"

definition set_preference :: "Employee \<Rightarrow> int \<Rightarrow> Shift \<Rightarrow> Employee" where
  "set_preference e day shift = e\<lparr>preferences := (preferences e)(day \<mapsto> shift)\<rparr>"

definition get_preference :: "Employee \<Rightarrow> int \<Rightarrow> Shift option" where
  "get_preference e day = preferences e day"

text \<open>
  \<open>can_work_day\<close>: \<open>day in self.schedule\<close> is the test that the key is present; the second
  test compares the counter with the weekly maximum.
\<close>

definition can_work_day :: "Employee \<Rightarrow> int \<Rightarrow> bool" where
  "can_work_day e day =
     (if schedule e day \<noteq> None then False
      else days_worked e < MAX_WORK_DAYS_PER_WEEK)"

text \<open>
  \<open>assign_shift\<close> mutates the object and returns a flag; the model returns the flag
  together with the object after the call.
\<close>

definition assign_shift :: "Employee \<Rightarrow> int \<Rightarrow> Shift \<Rightarrow> bool \<times> Employee" where
  "assign_shift e day shift =
     (if \<not> can_work_day e day then (False, e)
      else (True, e\<lparr>schedule := (schedule e)(day \<mapsto> shift),
                     days_worked := days_worked e + 1\<rparr>))"

definition get_assigned_shift :: "Employee \<Rightarrow> int \<Rightarrow> Shift option" where
  "get_assigned_shift e day = schedule e day"

definition reset_schedule :: "Employee \<Rightarrow> Employee" where
  "reset_schedule e = e\<lparr>schedule := Map.empty, days_worked := 0\<rparr>"

section \<open>The scheduler (scheduler.py)\<close>

text \<open>
  The lines the engine prints, as data. Each constructor carries exactly the values the
  corresponding f-string interpolates:
  \<^item> \<open>ConflictResolved\<close>: the three "Conflict resolved" lines of \<open>_resolve_conflict\<close>
    (employee name, day, shift), told apart by their trailing remark;
  \<^item> \<open>CouldNotAssign\<close>: "Warning: Could not assign {employee.name} anywhere (schedule
    full)", which interpolates the name and nothing else;
  \<^item> \<open>Understaffed\<close>: "Understaffed: {day_name} {shift.value} needs {needed-assigned}
    more employees (have {current_staff+assigned}/2)".
  A day is printed through \<open>self.day_names[day]\<close>; the engine only passes days of
  \<open>self.days\<close>, for which the lookup succeeds and the name determines the day, so the
  message carries the day itself. The fixed progress banners of \<open>assign_shifts\<close> carry no
  data and are left out.
\<close>

datatype remark = PreferredShiftFull | MovedToDifferentDay | AlternativeAssignment

datatype message =
    ConflictResolved string int Shift remark
  | CouldNotAssign string
  | Understaffed int Shift int int

text \<open>
  \<open>class Scheduler\<close>. \<open>self.schedule\<close> is a \<open>defaultdict\<close> of \<open>defaultdict(list)\<close>: every
  (day, shift) reads as a list, the empty one until something is appended. It is the field
  \<open>schedule_grid\<close> here (the employee record already has a field \<open>schedule\<close>). Employees are
  objects shared by reference; the model addresses them by their position in
  \<open>self.employees\<close>. \<open>printed\<close> collects the printed lines in order.
\<close>

record Scheduler =
  employees :: "Employee list"
  schedule_grid :: "int \<Rightarrow> Shift \<Rightarrow> string list"
  printed :: "message list"

definition days :: "int list" where
  "days = [0, 1, 2, 3, 4, 5, 6]"

definition shifts :: "Shift list" where
  "shifts = [MORNING, AFTERNOON, EVENING]"

definition new_scheduler :: Scheduler where
  "new_scheduler = \<lparr>employees = [], schedule_grid = (\<lambda>day shift. []), printed = []\<rparr>"

definition print_msg :: "Scheduler \<Rightarrow> message \<Rightarrow> Scheduler" where
  "print_msg st m = st\<lparr>printed := printed st @ [m]\<rparr>"

definition reset_schedules :: "Scheduler \<Rightarrow> Scheduler" where
  "reset_schedules st =
     st\<lparr>employees := map reset_schedule (employees st),
        schedule_grid := (\<lambda>day shift. [])\<rparr>"

definition can_assign :: "Scheduler \<Rightarrow> nat \<Rightarrow> int \<Rightarrow> Shift \<Rightarrow> bool" where
  "can_assign st i day shift =
     (if \<not> can_work_day (employees st ! i) day then False
      else if int (length (schedule_grid st day shift)) \<ge> MAX_EMPLOYEES_PER_SHIFT then False
      else True)"

definition assign :: "Scheduler \<Rightarrow> nat \<Rightarrow> int \<Rightarrow> Shift \<Rightarrow> Scheduler" where
  "assign st i day shift =
     (case assign_shift (employees st ! i) day shift of
        (ok, e) \<Rightarrow>
          if ok
          then st\<lparr>employees := (employees st)[i := e],
                  schedule_grid := (schedule_grid st)
                    (day := (schedule_grid st day)
                       (shift := schedule_grid st day shift @ [name e]))\<rparr>
          else st\<lparr>employees := (employees st)[i := e]\<rparr>)"

text \<open>
  \<open>_resolve_conflict\<close>. Each loop returns \<open>Some\<close> of the state at the \<open>return\<close> it reached,
  or \<open>None\<close> when it ran to its end.
\<close>

fun try_other_shifts ::
  "Scheduler \<Rightarrow> nat \<Rightarrow> int \<Rightarrow> Shift \<Rightarrow> Shift list \<Rightarrow> Scheduler option" where
  "try_other_shifts st i preferred_day preferred_shift [] = None"
| "try_other_shifts st i preferred_day preferred_shift (other_shift # rest) =
     (if other_shift \<noteq> preferred_shift
      then (if can_assign st i preferred_day other_shift
            then Some (print_msg (assign st i preferred_day other_shift)
                   (ConflictResolved (name (employees st ! i)) preferred_day other_shift
                      PreferredShiftFull))
            else try_other_shifts st i preferred_day preferred_shift rest)
      else try_other_shifts st i preferred_day preferred_shift rest)"

fun try_any_shift :: "Scheduler \<Rightarrow> nat \<Rightarrow> int \<Rightarrow> Shift list \<Rightarrow> Scheduler option" where
  "try_any_shift st i other_day [] = None"
| "try_any_shift st i other_day (other_shift # rest) =
     (if can_assign st i other_day other_shift
      then Some (print_msg (assign st i other_day other_shift)
             (ConflictResolved (name (employees st ! i)) other_day other_shift
                AlternativeAssignment))
      else try_any_shift st i other_day rest)"

fun try_other_days ::
  "Scheduler \<Rightarrow> nat \<Rightarrow> int \<Rightarrow> Shift \<Rightarrow> int list \<Rightarrow> Scheduler option" where
  "try_other_days st i preferred_day preferred_shift [] = None"
| "try_other_days st i preferred_day preferred_shift (other_day # rest) =
     (if other_day = preferred_day
      then try_other_days st i preferred_day preferred_shift rest
      else if can_assign st i other_day preferred_shift
      then Some (print_msg (assign st i other_day preferred_shift)
             (ConflictResolved (name (employees st ! i)) other_day preferred_shift
                MovedToDifferentDay))
      else (case try_any_shift st i other_day shifts of
              Some st' \<Rightarrow> Some st'
            | None \<Rightarrow> try_other_days st i preferred_day preferred_shift rest))"

definition resolve_conflict :: "Scheduler \<Rightarrow> nat \<Rightarrow> int \<Rightarrow> Shift \<Rightarrow> Scheduler" where
  "resolve_conflict st i preferred_day preferred_shift =
     (case try_other_shifts st i preferred_day preferred_shift shifts of
        Some st' \<Rightarrow> st'
      | None \<Rightarrow>
          (case try_other_days st i preferred_day preferred_shift days of
             Some st' \<Rightarrow> st'
           | None \<Rightarrow> print_msg st (CouldNotAssign (name (employees st ! i)))))"

text \<open>
  \<open>_assign_preferred_shifts\<close>: the inner loop over the days for the employee at position
  \<open>i\<close>, with its \<open>break\<close>, then the outer loop over the employees in list order.
\<close>

fun assign_preferred_days :: "Scheduler \<Rightarrow> nat \<Rightarrow> int list \<Rightarrow> Scheduler" where
  "assign_preferred_days st i [] = st"
| "assign_preferred_days st i (day # rest) =
     (if days_worked (employees st ! i) \<ge> MAX_WORK_DAYS_PER_WEEK then st
      else (case get_preference (employees st ! i) day of
              None \<Rightarrow> assign_preferred_days st i rest
            | Some preferred_shift \<Rightarrow>
                (if can_assign st i day preferred_shift
                 then assign_preferred_days (assign st i day preferred_shift) i rest
                 else assign_preferred_days
                        (resolve_conflict st i day preferred_shift) i rest)))"

definition assign_preferred_shifts :: "Scheduler \<Rightarrow> Scheduler" where
  "assign_preferred_shifts st =
     foldl (\<lambda>st i. assign_preferred_days st i days) st [0..<length (employees st)]"

text \<open>
  \<open>_ensure_minimum_staffing\<close>. \<open>random.shuffle\<close> is the only source of randomness; the
  permutation it applies when the cell (day, shift) is processed is the parameter
  \<open>shuffle day shift\<close> (each cell is processed once in a run). The candidates are
  positions in \<open>self.employees\<close>. \<open>fill_shift\<close> is the loop over the shuffled candidates
  and returns the state with the counter \<open>assigned\<close>.
\<close>

definition get_available_employees :: "Scheduler \<Rightarrow> int \<Rightarrow> nat list" where
  "get_available_employees st day =
     filter (\<lambda>i. can_work_day (employees st ! i) day) [0..<length (employees st)]"

fun fill_shift ::
  "Scheduler \<Rightarrow> int \<Rightarrow> Shift \<Rightarrow> int \<Rightarrow> nat list \<Rightarrow> int \<Rightarrow> Scheduler \<times> int" where
  "fill_shift st day shift needed [] assigned = (st, assigned)"
| "fill_shift st day shift needed (i # rest) assigned =
     (if assigned \<ge> needed then (st, assigned)
      else if can_assign st i day shift
      then fill_shift (assign st i day shift) day shift needed rest (assigned + 1)
      else fill_shift st day shift needed rest assigned)"

definition staff_shift ::
  "(int \<Rightarrow> Shift \<Rightarrow> nat list \<Rightarrow> nat list) \<Rightarrow> Scheduler \<Rightarrow> int \<Rightarrow> Shift \<Rightarrow> Scheduler" where
  "staff_shift shuffle st day shift =
     (let current_staff = int (length (schedule_grid st day shift))
      in if current_staff < MIN_EMPLOYEES_PER_SHIFT
         then (let needed = MIN_EMPLOYEES_PER_SHIFT - current_staff;
                   available_employees = shuffle day shift (get_available_employees st day)
               in (case fill_shift st day shift needed available_employees 0 of
                     (st', assigned) \<Rightarrow>
                       if assigned < needed
                       then print_msg st'
                              (Understaffed day shift (needed - assigned)
                                 (current_staff + assigned))
                       else st'))
         else st)"

definition ensure_minimum_staffing ::
  "(int \<Rightarrow> Shift \<Rightarrow> nat list \<Rightarrow> nat list) \<Rightarrow> Scheduler \<Rightarrow> Scheduler" where
  "ensure_minimum_staffing shuffle st =
     foldl (\<lambda>st day. foldl (\<lambda>st shift. staff_shift shuffle st day shift) st shifts)
       st days"

text \<open>\<open>assign_shifts\<close>: the three phases of a run, in order.\<close>

definition assign_shifts ::
  "(int \<Rightarrow> Shift \<Rightarrow> nat list \<Rightarrow> nat list) \<Rightarrow> Scheduler \<Rightarrow> Scheduler" where
  "assign_shifts shuffle st =
     ensure_minimum_staffing shuffle (assign_preferred_shifts (reset_schedules st))"

section \<open>Invariants of a scheduling run\<close>

text \<open>
  The workload rule for one employee: the assignment dictionary is finite (as every Python
  dictionary is), the counter is its number of entries, and the counter is at most 5.
\<close>

definition counts_ok :: "Employee \<Rightarrow> bool" where
  "counts_ok e =
     (finite (dom (schedule e)) \<and> days_worked e = int (card (dom (schedule e))) \<and>
      days_worked e \<le> 5)"

definition workload_inv :: "Scheduler \<Rightarrow> bool" where
  "workload_inv st = list_all counts_ok (employees st)"

text \<open>
  Every cell of the grid holds at most 8 names.
\<close>

definition cells_bounded :: "Scheduler \<Rightarrow> bool" where
  "cells_bounded st = (\<forall>day shift. int (length (schedule_grid st day shift)) \<le> 8)"

text \<open>
  \<open>full_cells_kept st st'\<close>: every cell that holds 8 (or more) names in \<open>st\<close> is the same list
  in \<open>st'\<close>, that is, nothing was appended to it. \<open>capacity_inv\<close> adds that the bound of 8
  carries over from \<open>st\<close> to \<open>st'\<close>.
\<close>

definition full_cells_kept :: "Scheduler \<Rightarrow> Scheduler \<Rightarrow> bool" where
  "full_cells_kept st st' =
     (\<forall>day shift. int (length (schedule_grid st day shift)) \<ge> MAX_EMPLOYEES_PER_SHIFT \<longrightarrow>
        schedule_grid st' day shift = schedule_grid st day shift)"

definition capacity_inv :: "Scheduler \<Rightarrow> Scheduler \<Rightarrow> bool" where
  "capacity_inv st st' = ((cells_bounded st \<longrightarrow> cells_bounded st') \<and> full_cells_kept st st')"

text \<open>
  The grid stores names, and \<open>add_employee\<close> refuses a name that is already taken, so
  names identify employees (\<open>unique_names\<close>). \<open>grid_is_assignments\<close>: a cell, as a set,
  is the set of the names of the employees whose own schedule sends the day to the shift.
  \<open>person_in_cell_iff\<close>: an employee's name is in a cell exactly when the employee's
  schedule sends the day to the shift.
\<close>

definition unique_names :: "Scheduler \<Rightarrow> bool" where
  "unique_names st = distinct (map name (employees st))"

definition grid_is_assignments :: "Scheduler \<Rightarrow> bool" where
  "grid_is_assignments st =
     (\<forall>day shift. set (schedule_grid st day shift) =
        name ` {e \<in> set (employees st). schedule e day = Some shift})"

definition person_in_cell_iff :: "Scheduler \<Rightarrow> bool" where
  "person_in_cell_iff st =
     (\<forall>e \<in> set (employees st). \<forall>day shift.
        (name e \<in> set (schedule_grid st day shift)) = (schedule e day = Some shift))"

definition consistent :: "Scheduler \<Rightarrow> bool" where
  "consistent st = (unique_names st \<and> grid_is_assignments st \<and> person_in_cell_iff st)"

definition consistent_n :: "nat \<Rightarrow> Scheduler \<Rightarrow> bool" where
  "consistent_n n st = (consistent st \<and> length (employees st) = n)"

text \<open>
  What \<open>random.shuffle\<close> guarantees: the result is a permutation of its argument.
\<close>

definition is_shuffle :: "(int \<Rightarrow> Shift \<Rightarrow> nat list \<Rightarrow> nat list) \<Rightarrow> bool" where
  "is_shuffle shuffle = (\<forall>day shift xs. mset (shuffle day shift xs) = mset xs)"

text \<open>
  A small roster used for concrete runs: Ann prefers the evening shift on Tuesday, Bob states
  no preference.
\<close>

definition demo :: Scheduler where
  "demo = new_scheduler\<lparr>employees :=
     [set_preference (new_employee ''Ann'') 1 EVENING, new_employee ''Bob'']\<rparr>"

section \<open>The specification's description of the engine\<close>

text \<open>
  The search order of conflict resolution as the specification words it: first the other
  shift kinds on the same day in enumeration order, then every other day in weekday order,
  on each the preferred shift first and then the other shift kinds in enumeration order.
  \<open>first_passing\<close> is the first slot of that order that passes the capacity and availability
  check; \<open>remark_for\<close> is the trailing remark of the line printed for a slot.
\<close>

definition other_shifts :: "Shift \<Rightarrow> Shift list" where
  "other_shifts shift = filter (\<lambda>s. s \<noteq> shift) shifts"

definition search_order :: "int \<Rightarrow> Shift \<Rightarrow> (int \<times> Shift) list" where
  "search_order day shift =
     map (\<lambda>s. (day, s)) (other_shifts shift) @
     concat (map (\<lambda>d. (d, shift) # map (\<lambda>s. (d, s)) (other_shifts shift))
       (filter (\<lambda>d. d \<noteq> day) days))"

definition first_passing :: "Scheduler \<Rightarrow> nat \<Rightarrow> int \<Rightarrow> Shift \<Rightarrow> (int \<times> Shift) option" where
  "first_passing st i day shift =
     find (\<lambda>(d, s). can_assign st i d s) (search_order day shift)"

definition remark_for :: "int \<Rightarrow> Shift \<Rightarrow> int \<Rightarrow> Shift \<Rightarrow> remark" where
  "remark_for day shift d s =
     (if d = day then PreferredShiftFull
      else if s = shift then MovedToDifferentDay
      else AlternativeAssignment)"

definition resolved :: "Scheduler \<Rightarrow> nat \<Rightarrow> int \<Rightarrow> Shift \<Rightarrow> int \<times> Shift \<Rightarrow> Scheduler" where
  "resolved st i day shift slot =
     (case slot of (d, s) \<Rightarrow>
        print_msg (assign st i d s)
          (ConflictResolved (name (employees st ! i)) d s (remark_for day shift d s)))"

text \<open>
  Both strategies of \<open>_resolve_conflict\<close> run to their end without a \<open>return\<close>.
\<close>

definition both_strategies_fail :: "Scheduler \<Rightarrow> nat \<Rightarrow> int \<Rightarrow> Shift \<Rightarrow> bool" where
  "both_strategies_fail st i day shift =
     (try_other_shifts st i day shift shifts = None \<and>
      try_other_days st i day shift days = None)"

text \<open>
  \<open>slot_closed i day v st\<close>: the employee at position \<open>i\<close> has the entry \<open>v\<close> for \<open>day\<close>
  and passes the check for no shift of that day. \<open>rest_of_run\<close> is what a run still
  executes after a call of \<open>_resolve_conflict\<close> for the employee at position \<open>i\<close>: the
  later days of that employee, the later employees, and the backfill phase.
\<close>

definition slot_closed :: "nat \<Rightarrow> int \<Rightarrow> Shift option \<Rightarrow> Scheduler \<Rightarrow> bool" where
  "slot_closed i day v st =
     (schedule (employees st ! i) day = v \<and>
      list_all (\<lambda>s. \<not> can_assign st i day s) shifts)"

definition rest_of_run ::
  "(int \<Rightarrow> Shift \<Rightarrow> nat list \<Rightarrow> nat list) \<Rightarrow> Scheduler \<Rightarrow> nat \<Rightarrow> int list \<Rightarrow> nat list \<Rightarrow>
     Scheduler" where
  "rest_of_run shuffle st i later_days later_employees =
     ensure_minimum_staffing shuffle
       (foldl (\<lambda>st j. assign_preferred_days st j days)
          (assign_preferred_days st i later_days) later_employees)"

text \<open>
  The backfill of one cell as the specification words it: the shortfall is
  \<open>max 0 (2 - size)\<close>; when it is positive the employees who can work the day are
  collected and shuffled once, and the shuffled sequence is walked, assigning every
  candidate that passes the check, until the shortfall is filled or the sequence ends;
  a cell still below 2 afterwards gets the understaffed line with the remaining shortfall.
  \<open>backfill\<close> visits the cells day by day, and within a day in enumeration order.
\<close>

fun fill_until :: "Scheduler \<Rightarrow> int \<Rightarrow> Shift \<Rightarrow> nat \<Rightarrow> nat list \<Rightarrow> Scheduler" where
  "fill_until st day shift 0 candidates = st"
| "fill_until st day shift (Suc k) [] = st"
| "fill_until st day shift (Suc k) (i # rest) =
     (if can_assign st i day shift
      then fill_until (assign st i day shift) day shift k rest
      else fill_until st day shift (Suc k) rest)"

definition backfill_cell ::
  "(int \<Rightarrow> Shift \<Rightarrow> nat list \<Rightarrow> nat list) \<Rightarrow> Scheduler \<Rightarrow> int \<Rightarrow> Shift \<Rightarrow> Scheduler" where
  "backfill_cell shuffle st day shift =
     (let shortfall = max 0 (2 - int (length (schedule_grid st day shift)))
      in if shortfall > 0
         then (let candidates =
                     filter (\<lambda>i. can_work_day (employees st ! i) day)
                       [0..<length (employees st)];
                   st' = fill_until st day shift (nat shortfall) (shuffle day shift candidates);
                   staffed = int (length (schedule_grid st' day shift))
               in if staffed < 2
                  then print_msg st' (Understaffed day shift (2 - staffed) staffed)
                  else st')
         else st)"

definition backfill ::
  "(int \<Rightarrow> Shift \<Rightarrow> nat list \<Rightarrow> nat list) \<Rightarrow> Scheduler \<Rightarrow> Scheduler" where
  "backfill shuffle st =
     foldl (\<lambda>st (day, shift). backfill_cell shuffle st day shift) st
       (List.product days shifts)"

section \<open>Concrete rosters\<close>

text \<open>
  Scenario C of the specification: eight employees hold the evening shift on Tuesday
  (day 1), and a ninth prefers it.
\<close>

definition tuesday_evening_crew :: "string list" where
  "tuesday_evening_crew = [''P1'', ''P2'', ''P3'', ''P4'', ''P5'', ''P6'', ''P7'', ''P8'']"

definition scenario_c :: Scheduler where
  "scenario_c =
     \<lparr>employees =
        map (\<lambda>n. \<lparr>name = n, preferences = [1 \<mapsto> EVENING], schedule = [1 \<mapsto> EVENING],
                   days_worked = 1\<rparr>) tuesday_evening_crew @
        [set_preference (new_employee ''P9'') 1 EVENING],
      schedule_grid =
        (\<lambda>day shift. if day = 1 \<and> shift = EVENING then tuesday_evening_crew else []),
      printed = []\<rparr>"

text \<open>
  One employee who states a preference for six days.
\<close>

definition keen :: Scheduler where
  "keen = new_scheduler\<lparr>employees :=
     [(new_employee ''Ann'')\<lparr>preferences :=
        [0 \<mapsto> MORNING, 1 \<mapsto> MORNING, 2 \<mapsto> MORNING, 3 \<mapsto> MORNING,
         4 \<mapsto> MORNING, 5 \<mapsto> MORNING]\<rparr>]\<rparr>"

text \<open>
  A full house: 24 employees fill every shift of days 4, 5 and 6 (eight per cell, each
  of them working the same shift on the three days, as they prefer), and Zed, the last
  employee of the roster, already works the morning of days 0 to 3. This is the state of
  the preferred-assignment phase when Zed's loop reaches day 4.
\<close>

definition crowd_names :: "Shift \<Rightarrow> string list" where
  "crowd_names shift =
     (case shift of
        MORNING \<Rightarrow> [''a'', ''b'', ''c'', ''d'', ''e'', ''f'', ''g'', ''h'']
      | AFTERNOON \<Rightarrow> [''i'', ''j'', ''k'', ''l'', ''m'', ''n'', ''o'', ''p'']
      | EVENING \<Rightarrow> [''q'', ''r'', ''s'', ''t'', ''u'', ''v'', ''w'', ''x''])"

definition crowd :: "Shift \<Rightarrow> Employee list" where
  "crowd shift =
     map (\<lambda>n. \<lparr>name = n,
                preferences = [4 \<mapsto> shift, 5 \<mapsto> shift, 6 \<mapsto> shift],
                schedule = [4 \<mapsto> shift, 5 \<mapsto> shift, 6 \<mapsto> shift],
                days_worked = 3\<rparr>) (crowd_names shift)"

definition zed :: Employee where
  "zed = \<lparr>name = ''Zed'',
          preferences = [0 \<mapsto> MORNING, 1 \<mapsto> MORNING, 2 \<mapsto> MORNING, 3 \<mapsto> MORNING,
            4 \<mapsto> MORNING, 5 \<mapsto> EVENING],
          schedule = [0 \<mapsto> MORNING, 1 \<mapsto> MORNING, 2 \<mapsto> MORNING, 3 \<mapsto> MORNING],
          days_worked = 4\<rparr>"

definition packed :: Scheduler where
  "packed =
     \<lparr>employees = crowd MORNING @ crowd AFTERNOON @ crowd EVENING @ [zed],
      schedule_grid =
        (\<lambda>day shift.
           if 4 \<le> day \<and> day \<le> 6 then crowd_names shift
           else if 0 \<le> day \<and> day \<le> 3 \<and> shift = MORNING then [''Zed'']
           else []),
      printed = []\<rparr>"

section \<open>Properties of the employee record\<close>

lemma can_work_day_iff:
  "can_work_day e day \<longleftrightarrow> schedule e day = None \<and> days_worked e < 5"
  by (simp add: can_work_day_def MAX_WORK_DAYS_PER_WEEK_def)

text \<open>
  Claim C4. When the day already carries an assignment, or the counter is not below 5,
  \<open>can_work_day\<close> is false and \<open>assign_shift\<close> returns False with the employee exactly as
  it was. Otherwise \<open>can_work_day\<close> is true and \<open>assign_shift\<close> returns True, stores the
  shift under the day, leaves every other day, the name and the preferences as they were,
  and adds exactly one to the counter.
\<close>

theorem assign_shift_spec:
  "(schedule e day \<noteq> None \<or> \<not> days_worked e < 5 \<longrightarrow>
      \<not> can_work_day e day \<and> assign_shift e day shift = (False, e)) \<and>
   (schedule e day = None \<and> days_worked e < 5 \<longrightarrow>
      can_work_day e day \<and>
      fst (assign_shift e day shift) = True \<and>
      schedule (snd (assign_shift e day shift)) = (schedule e)(day \<mapsto> shift) \<and>
      days_worked (snd (assign_shift e day shift)) = days_worked e + 1 \<and>
      name (snd (assign_shift e day shift)) = name e \<and>
      preferences (snd (assign_shift e day shift)) = preferences e)"
  by (auto simp add: assign_shift_def can_work_day_iff)

theorem assign_shift_spec_witness:
  "assign_shift (new_employee ''Ann'') 2 EVENING =
     (True, \<lparr>name = ''Ann'', preferences = Map.empty,
             schedule = [2 \<mapsto> EVENING], days_worked = 1\<rparr>) \<and>
   assign_shift ((new_employee ''Ann'')\<lparr>schedule := [2 \<mapsto> EVENING], days_worked := 1\<rparr>)
       2 MORNING =
     (False, (new_employee ''Ann'')\<lparr>schedule := [2 \<mapsto> EVENING], days_worked := 1\<rparr>) \<and>
   assign_shift ((new_employee ''Ann'')\<lparr>days_worked := 5\<rparr>) 2 MORNING =
     (False, (new_employee ''Ann'')\<lparr>days_worked := 5\<rparr>)"
  using assign_shift_spec [of "new_employee ''Ann''" 2 EVENING]
    assign_shift_spec [of "(new_employee ''Ann'')\<lparr>schedule := [2 \<mapsto> EVENING],
      days_worked := 1\<rparr>" 2 MORNING]
    assign_shift_spec [of "(new_employee ''Ann'')\<lparr>days_worked := 5\<rparr>" 2 MORNING]
  by (simp add: new_employee_def prod_eq_iff)

text \<open>
  Claim C9. \<open>reset_schedule\<close> leaves the assignment map empty and the counter at zero,
  and the name and the whole preference map are the ones the employee had before the
  call, whatever state the employee was in.
\<close>

theorem reset_schedule_frame:
  "schedule (reset_schedule e) = Map.empty \<and>
   days_worked (reset_schedule e) = 0 \<and>
   name (reset_schedule e) = name e \<and>
   preferences (reset_schedule e) = preferences e \<and>
   reset_schedule e = \<lparr>name = name e, preferences = preferences e,
                        schedule = Map.empty, days_worked = 0\<rparr>"
  by (simp add: reset_schedule_def)

text \<open>
  Claim C10. The day is not range checked: for every integer day, \<open>can_work_day\<close> is
  exactly the conjunction of the two per-person rules, and on a freshly created employee
  \<open>assign_shift\<close> with day -1 (or 42) returns True, stores the shift under that key and
  sets the counter to one.
\<close>

theorem day_not_range_checked:
  "(can_work_day e day \<longleftrightarrow> schedule e day = None \<and> days_worked e < 5) \<and>
   can_work_day (new_employee n) day \<and>
   fst (assign_shift (new_employee n) day shift) = True \<and>
   schedule (snd (assign_shift (new_employee n) day shift)) day = Some shift \<and>
   days_worked (snd (assign_shift (new_employee n) day shift)) = 1 \<and>
   assign_shift (new_employee n) (- 1) shift =
     (True, \<lparr>name = n, preferences = Map.empty,
             schedule = [- 1 \<mapsto> shift], days_worked = 1\<rparr>) \<and>
   assign_shift (new_employee n) 42 shift =
     (True, \<lparr>name = n, preferences = Map.empty,
             schedule = [42 \<mapsto> shift], days_worked = 1\<rparr>)"
  by (simp add: assign_shift_def can_work_day_iff new_employee_def)

section \<open>Basic facts about the engine steps\<close>

lemma can_assign_iff:
  "can_assign st i day shift \<longleftrightarrow>
     can_work_day (employees st ! i) day \<and> length (schedule_grid st day shift) < 8"
  by (auto simp add: can_assign_def MAX_EMPLOYEES_PER_SHIFT_def)

lemma assign_guarded:
  "can_work_day (employees st ! i) day \<Longrightarrow>
   assign st i day shift =
     st\<lparr>employees := (employees st)
          [i := (employees st ! i)\<lparr>schedule := (schedule (employees st ! i))(day \<mapsto> shift),
                                   days_worked := days_worked (employees st ! i) + 1\<rparr>],
        schedule_grid := (schedule_grid st)
          (day := (schedule_grid st day)
             (shift := schedule_grid st day shift @ [name (employees st ! i)]))\<rparr>"
  by (simp add: assign_def assign_shift_def)

lemma assign_blocked:
  "\<not> can_work_day (employees st ! i) day \<Longrightarrow> assign st i day shift = st"
  by (simp add: assign_def assign_shift_def)

lemma length_employees_assign [simp]:
  "length (employees (assign st i day shift)) = length (employees st)"
  by (simp add: assign_def assign_shift_def)

lemma employees_print_msg [simp]: "employees (print_msg st m) = employees st"
  by (simp add: print_msg_def)

lemma schedule_grid_print_msg [simp]: "schedule_grid (print_msg st m) = schedule_grid st"
  by (simp add: print_msg_def)

lemma printed_print_msg [simp]: "printed (print_msg st m) = printed st @ [m]"
  by (simp add: print_msg_def)

text \<open>
  Every state change of the engine is a guarded \<open>assign\<close> or a printed line. A property
  of states that both keep is therefore kept by each loop of the engine; \<open>V\<close> restricts
  the positions for which the property is known to survive \<open>assign\<close>.
\<close>

lemma try_other_shifts_pres:
  assumes step: "\<And>st i d s. P st \<Longrightarrow> V i \<Longrightarrow> can_assign st i d s \<Longrightarrow> P (assign st i d s)"
    and pr: "\<And>st m. P st \<Longrightarrow> P (print_msg st m)"
    and "P st" "V i" "try_other_shifts st i d p xs = Some st'"
  shows "P st'"
  using assms(3-) by (induction xs) (auto split: if_splits intro: step pr)

lemma try_any_shift_pres:
  assumes step: "\<And>st i d s. P st \<Longrightarrow> V i \<Longrightarrow> can_assign st i d s \<Longrightarrow> P (assign st i d s)"
    and pr: "\<And>st m. P st \<Longrightarrow> P (print_msg st m)"
    and "P st" "V i" "try_any_shift st i d xs = Some st'"
  shows "P st'"
  using assms(3-) by (induction xs) (auto split: if_splits intro: step pr)

lemma try_other_days_pres:
  assumes step: "\<And>st i d s. P st \<Longrightarrow> V i \<Longrightarrow> can_assign st i d s \<Longrightarrow> P (assign st i d s)"
    and pr: "\<And>st m. P st \<Longrightarrow> P (print_msg st m)"
    and "P st" "V i" "try_other_days st i d p ds = Some st'"
  shows "P st'"
  using assms(3-)
  by (induction ds)
    (auto split: if_splits option.splits intro: step pr
      try_any_shift_pres [where P = P and V = V, OF step pr])

lemma resolve_conflict_pres:
  assumes step: "\<And>st i d s. P st \<Longrightarrow> V i \<Longrightarrow> can_assign st i d s \<Longrightarrow> P (assign st i d s)"
    and pr: "\<And>st m. P st \<Longrightarrow> P (print_msg st m)"
    and "P st" "V i"
  shows "P (resolve_conflict st i d p)"
  using assms(3-)
  by (auto simp add: resolve_conflict_def split: option.splits intro: pr
      try_other_shifts_pres [where P = P and V = V, OF step pr]
      try_other_days_pres [where P = P and V = V, OF step pr])

lemma assign_preferred_days_pres:
  assumes step: "\<And>st i d s. P st \<Longrightarrow> V i \<Longrightarrow> can_assign st i d s \<Longrightarrow> P (assign st i d s)"
    and pr: "\<And>st m. P st \<Longrightarrow> P (print_msg st m)"
    and "P st" "V i"
  shows "P (assign_preferred_days st i ds)"
  using assms(3-)
proof (induction ds arbitrary: st)
  case Nil
  then show ?case by simp
next
  case (Cons day rest)
  show ?case
  proof (cases "get_preference (employees st ! i) day")
    case None
    with Cons show ?thesis by simp
  next
    case (Some p)
    have "P (assign st i day p)" if "can_assign st i day p"
      using step Cons.prems that by blast
    moreover have "P (resolve_conflict st i day p)"
      using resolve_conflict_pres [where P = P and V = V, OF step pr] Cons.prems by blast
    ultimately show ?thesis
      using Some Cons by simp
  qed
qed

lemma foldl_pres:
  assumes "\<And>s x. P s \<Longrightarrow> x \<in> set xs \<Longrightarrow> P (f s x)" "P s"
  shows "P (foldl f s xs)"
  using assms by (induction xs arbitrary: s) auto

lemma assign_preferred_shifts_pres:
  assumes step: "\<And>st i d s. P st \<Longrightarrow> V i \<Longrightarrow> can_assign st i d s \<Longrightarrow> P (assign st i d s)"
    and pr: "\<And>st m. P st \<Longrightarrow> P (print_msg st m)"
    and "P st" "\<forall>i < length (employees st). V i"
  shows "P (assign_preferred_shifts st)"
  unfolding assign_preferred_shifts_def
proof (rule foldl_pres)
  show "P st" by fact
next
  fix s x
  assume "P s" "x \<in> set [0..<length (employees st)]"
  then show "P (assign_preferred_days s x days)"
    using assign_preferred_days_pres [where P = P and V = V, OF step pr] assms(4) by simp
qed

lemma fill_shift_pres:
  assumes step: "\<And>st i d s. P st \<Longrightarrow> V i \<Longrightarrow> can_assign st i d s \<Longrightarrow> P (assign st i d s)"
    and "P st" "\<forall>i \<in> set cands. V i"
  shows "P (fst (fill_shift st day shift needed cands assigned))"
  using assms(2-)
  by (induction cands arbitrary: st assigned) (auto intro: step)

lemma staff_shift_pres:
  assumes step: "\<And>st i d s. P st \<Longrightarrow> V i \<Longrightarrow> can_assign st i d s \<Longrightarrow> P (assign st i d s)"
    and pr: "\<And>st m. P st \<Longrightarrow> P (print_msg st m)"
    and "P st" "\<forall>i \<in> set (shuffle day shift (get_available_employees st day)). V i"
  shows "P (staff_shift shuffle st day shift)"
proof -
  define needed where
    "needed = MIN_EMPLOYEES_PER_SHIFT - int (length (schedule_grid st day shift))"
  obtain st' assigned where
    eq: "fill_shift st day shift needed
      (shuffle day shift (get_available_employees st day)) 0 = (st', assigned)"
    by (cases "fill_shift st day shift needed
      (shuffle day shift (get_available_employees st day)) 0")
  have "P (fst (fill_shift st day shift needed
      (shuffle day shift (get_available_employees st day)) 0))"
    using fill_shift_pres [where P = P and V = V, OF step] assms(3,4) by blast
  then have "P st'"
    by (simp add: eq)
  then show ?thesis
    using assms(3) eq by (simp add: staff_shift_def Let_def needed_def pr)
qed

lemma ensure_minimum_staffing_pres:
  assumes step: "\<And>st i d s. P st \<Longrightarrow> V i \<Longrightarrow> can_assign st i d s \<Longrightarrow> P (assign st i d s)"
    and pr: "\<And>st m. P st \<Longrightarrow> P (print_msg st m)"
    and cand: "\<And>st d s. P st \<Longrightarrow> \<forall>i \<in> set (shuffle d s (get_available_employees st d)). V i"
    and "P st"
  shows "P (ensure_minimum_staffing shuffle st)"
  unfolding ensure_minimum_staffing_def
proof (rule foldl_pres)
  show "P st" by fact
next
  fix s x
  assume "P s"
  then show "P (foldl (\<lambda>st shift. staff_shift shuffle st x shift) s shifts)"
  proof (rule foldl_pres [rotated])
    fix s' y
    assume "P s'"
    then show "P (staff_shift shuffle s' x y)"
      using staff_shift_pres [where P = P and V = V, OF step pr] cand by blast
  qed
qed

lemma set_shuffle: "is_shuffle shuffle \<Longrightarrow> set (shuffle day shift xs) = set xs"
  unfolding is_shuffle_def by (metis set_mset_mset)

lemma available_in_range:
  "i \<in> set (get_available_employees st day) \<Longrightarrow> i < length (employees st)"
  by (simp add: get_available_employees_def)

lemma unique_names_demo: "unique_names demo"
  by (simp add: unique_names_def demo_def new_scheduler_def new_employee_def set_preference_def)

lemma is_shuffle_rev: "is_shuffle (\<lambda>day shift. rev)"
  by (simp add: is_shuffle_def)

section \<open>Workload invariant\<close>

lemma counts_ok_assign_shift:
  "counts_ok e \<Longrightarrow> counts_ok (snd (assign_shift e day shift))"
  by (auto simp add: counts_ok_def assign_shift_def can_work_day_iff domIff)

lemma workload_inv_assign: "workload_inv st \<Longrightarrow> workload_inv (assign st i day shift)"
proof -
  assume a: "workload_inv st"
  show ?thesis
  proof (cases "i < length (employees st)")
    case True
    then have "counts_ok (employees st ! i)"
      using a by (simp add: workload_inv_def list_all_length)
    then have "counts_ok (snd (assign_shift (employees st ! i) day shift))"
      by (rule counts_ok_assign_shift)
    then show ?thesis
      using a
      by (auto simp add: workload_inv_def assign_def list_all_iff split: prod.splits
          dest!: set_update_subset_insert [THEN subsetD])
  next
    case False
    then show ?thesis
      using a by (simp add: workload_inv_def assign_def list_update_beyond split: prod.splits)
  qed
qed

lemma workload_inv_print: "workload_inv st \<Longrightarrow> workload_inv (print_msg st m)"
  by (simp add: workload_inv_def)

lemma workload_inv_reset: "workload_inv (reset_schedules st)"
  by (simp add: workload_inv_def reset_schedules_def list_all_iff counts_ok_def
      reset_schedule_def)

lemma workload_inv_resolve: "workload_inv st \<Longrightarrow> workload_inv (resolve_conflict st i day shift)"
  by (rule resolve_conflict_pres [where P = workload_inv and V = "\<lambda>i. True"])
    (simp_all add: workload_inv_assign workload_inv_print)

lemma workload_inv_preferred: "workload_inv st \<Longrightarrow> workload_inv (assign_preferred_shifts st)"
  by (rule assign_preferred_shifts_pres [where P = workload_inv and V = "\<lambda>i. True"])
    (simp_all add: workload_inv_assign workload_inv_print)

lemma workload_inv_staffing:
  "workload_inv st \<Longrightarrow> workload_inv (ensure_minimum_staffing shuffle st)"
  by (rule ensure_minimum_staffing_pres [where P = workload_inv and V = "\<lambda>i. True"])
    (simp_all add: workload_inv_assign workload_inv_print)

text \<open>
  Claim C1. For every employee, the counter \<open>days_worked\<close> equals the number of entries of
  the employee's assignment dictionary and is at most 5 (\<open>workload_inv\<close>): this holds after
  the reset whatever the state was before, it is kept by every call of \<open>_assign\<close>, by
  conflict resolution, by the whole preferred-assignment phase and by the whole backfill
  phase (for any behaviour of the shuffle), and so it holds after a complete run.
\<close>

theorem workload_invariant:
  "workload_inv (reset_schedules st) \<and>
   (workload_inv st \<longrightarrow> workload_inv (assign st i day shift)) \<and>
   (workload_inv st \<longrightarrow> workload_inv (resolve_conflict st i day shift)) \<and>
   (workload_inv st \<longrightarrow> workload_inv (assign_preferred_shifts st)) \<and>
   (workload_inv st \<longrightarrow> workload_inv (ensure_minimum_staffing shuffle st)) \<and>
   workload_inv (assign_shifts shuffle st)"
  by (simp add: workload_inv_reset workload_inv_assign workload_inv_resolve
      workload_inv_preferred workload_inv_staffing assign_shifts_def)

theorem workload_invariant_witness:
  "workload_inv (reset_schedules demo) \<and>
   workload_inv (assign (reset_schedules demo) 0 1 EVENING) \<and>
   workload_inv (resolve_conflict (reset_schedules demo) 0 1 EVENING) \<and>
   workload_inv (assign_preferred_shifts (reset_schedules demo)) \<and>
   workload_inv (ensure_minimum_staffing (\<lambda>day shift. rev) (reset_schedules demo)) \<and>
   workload_inv (assign_shifts (\<lambda>day shift. rev) demo)"
  using workload_invariant [of demo 0 1 EVENING "\<lambda>day shift. rev"]
    workload_invariant [of "reset_schedules demo" 0 1 EVENING "\<lambda>day shift. rev"]
  by blast

section \<open>Capacity invariant\<close>

lemma cells_bounded_assign:
  "cells_bounded st \<Longrightarrow> can_assign st i day shift \<Longrightarrow> cells_bounded (assign st i day shift)"
  by (auto simp add: cells_bounded_def can_assign_iff assign_guarded)

lemma cells_bounded_print: "cells_bounded st \<Longrightarrow> cells_bounded (print_msg st m)"
  by (simp add: cells_bounded_def)

lemma cells_bounded_reset: "cells_bounded (reset_schedules st)"
  by (simp add: cells_bounded_def reset_schedules_def)

lemma capacity_inv_refl: "capacity_inv st st"
  by (simp add: capacity_inv_def full_cells_kept_def)

lemma capacity_inv_assign:
  "capacity_inv st0 st \<Longrightarrow> can_assign st i day shift \<Longrightarrow> capacity_inv st0 (assign st i day shift)"
proof -
  assume c: "capacity_inv st0 st" and ca: "can_assign st i day shift"
  have "cells_bounded (assign st i day shift)" if "cells_bounded st0"
    using c ca that by (simp add: capacity_inv_def cells_bounded_assign)
  moreover have "full_cells_kept st0 (assign st i day shift)"
    using c ca
    by (auto simp add: capacity_inv_def full_cells_kept_def can_assign_iff assign_guarded
        MAX_EMPLOYEES_PER_SHIFT_def)
  ultimately show ?thesis
    by (simp add: capacity_inv_def)
qed

lemma capacity_inv_print: "capacity_inv st0 st \<Longrightarrow> capacity_inv st0 (print_msg st m)"
  by (simp add: capacity_inv_def full_cells_kept_def cells_bounded_def)

lemma capacity_inv_resolve: "capacity_inv st (resolve_conflict st i day shift)"
  by (rule resolve_conflict_pres [where P = "capacity_inv st" and V = "\<lambda>i. True"])
    (simp_all add: capacity_inv_assign capacity_inv_print capacity_inv_refl)

lemma capacity_inv_preferred: "capacity_inv st (assign_preferred_shifts st)"
  by (rule assign_preferred_shifts_pres [where P = "capacity_inv st" and V = "\<lambda>i. True"])
    (simp_all add: capacity_inv_assign capacity_inv_print capacity_inv_refl)

lemma capacity_inv_staffing: "capacity_inv st (ensure_minimum_staffing shuffle st)"
  by (rule ensure_minimum_staffing_pres [where P = "capacity_inv st" and V = "\<lambda>i. True"])
    (simp_all add: capacity_inv_assign capacity_inv_print capacity_inv_refl)

text \<open>
  Claim C3. Every cell of the grid holds at most 8 names after the reset and after a
  complete run; each assignment path (the direct assignment, which the engine only makes
  when \<open>_can_assign\<close> holds, conflict resolution, the preferred-assignment phase and the
  backfill phase) keeps the bound of 8 and leaves every cell that already holds 8 names
  exactly as it was (\<open>capacity_inv\<close>).
\<close>

theorem capacity_invariant:
  "cells_bounded (reset_schedules st) \<and>
   (can_assign st i day shift \<longrightarrow> capacity_inv st (assign st i day shift)) \<and>
   capacity_inv st (resolve_conflict st i day shift) \<and>
   capacity_inv st (assign_preferred_shifts st) \<and>
   capacity_inv st (ensure_minimum_staffing shuffle st) \<and>
   cells_bounded (assign_shifts shuffle st)"
proof -
  have "cells_bounded (assign_shifts shuffle st)"
    using capacity_inv_preferred [of "reset_schedules st"]
      capacity_inv_staffing [of "assign_preferred_shifts (reset_schedules st)" shuffle]
    by (simp add: capacity_inv_def cells_bounded_reset assign_shifts_def)
  then show ?thesis
    using capacity_inv_assign [OF capacity_inv_refl, of st i day shift]
    by (simp add: cells_bounded_reset capacity_inv_resolve capacity_inv_preferred
        capacity_inv_staffing)
qed

theorem capacity_invariant_witness:
  "can_assign (reset_schedules demo) 0 1 EVENING \<and>
   cells_bounded (reset_schedules demo) \<and>
   capacity_inv (reset_schedules demo) (assign (reset_schedules demo) 0 1 EVENING) \<and>
   cells_bounded (assign (reset_schedules demo) 0 1 EVENING) \<and>
   cells_bounded (resolve_conflict (reset_schedules demo) 0 1 EVENING) \<and>
   cells_bounded (assign_preferred_shifts (reset_schedules demo)) \<and>
   cells_bounded (ensure_minimum_staffing (\<lambda>day shift. rev) (reset_schedules demo)) \<and>
   cells_bounded (assign_shifts (\<lambda>day shift. rev) demo)"
proof -
  have ca: "can_assign (reset_schedules demo) 0 1 EVENING"
    by (simp add: can_assign_iff can_work_day_iff reset_schedules_def reset_schedule_def
        demo_def new_scheduler_def)
  show ?thesis
    using capacity_invariant [of demo 0 1 EVENING "\<lambda>day shift. rev"]
      capacity_invariant [of "reset_schedules demo" 0 1 EVENING "\<lambda>day shift. rev"] ca
    unfolding capacity_inv_def by blast
qed

section \<open>Consistency of the grid with the employee records\<close>

lemma consistent_iff: "consistent st \<longleftrightarrow> unique_names st \<and> grid_is_assignments st"
proof -
  have "person_in_cell_iff st" if u: "unique_names st" and g: "grid_is_assignments st"
  proof -
    have inj: "inj_on name (set (employees st))"
      using u by (simp add: unique_names_def distinct_map)
    show ?thesis
      unfolding person_in_cell_iff_def
    proof (intro ballI allI)
      fix e day shift
      assume e: "e \<in> set (employees st)"
      have "set (schedule_grid st day shift) =
          name ` {e \<in> set (employees st). schedule e day = Some shift}"
        using g by (simp add: grid_is_assignments_def)
      then show "(name e \<in> set (schedule_grid st day shift)) = (schedule e day = Some shift)"
        using e inj by (auto dest: inj_onD)
    qed
  qed
  then show ?thesis by (auto simp add: consistent_def)
qed

lemma consistent_print: "consistent st \<Longrightarrow> consistent (print_msg st m)"
  by (simp add: consistent_iff unique_names_def grid_is_assignments_def)

lemma consistent_reset: "unique_names st \<Longrightarrow> consistent (reset_schedules st)"
  by (auto simp add: consistent_iff unique_names_def grid_is_assignments_def
      reset_schedules_def reset_schedule_def comp_def)

lemma consistent_assign_free:
  assumes c: "consistent st" and i: "i < length (employees st)"
    and ca: "can_work_day (employees st ! i) day"
  shows "consistent (assign st i day shift)"
proof -
  define e where "e = employees st ! i"
  define e' where "e' = e\<lparr>schedule := (schedule e)(day \<mapsto> shift),
                           days_worked := days_worked e + 1\<rparr>"
  have cw: "can_work_day e day"
    using ca by (simp add: e_def)
  then have none: "schedule e day = None"
    by (simp add: can_work_day_iff)
  have st': "assign st i day shift =
      st\<lparr>employees := (employees st)[i := e'],
         schedule_grid := (schedule_grid st)
           (day := (schedule_grid st day)(shift := schedule_grid st day shift @ [name e]))\<rparr>"
    using cw by (simp add: assign_guarded e_def e'_def)
  have u: "unique_names st" and g: "grid_is_assignments st"
    using c by (simp_all add: consistent_iff)
  have inj: "inj_on name (set (employees st))" and d: "distinct (employees st)"
    using u by (simp_all add: unique_names_def distinct_map)
  have e_in: "e \<in> set (employees st)"
    using i by (simp add: e_def)
  have names: "map name ((employees st)[i := e']) = map name (employees st)"
    using i by (simp add: map_update e'_def e_def list_update_same_conv)
  have set': "set ((employees st)[i := e']) = insert e' (set (employees st) - {e})"
    using d i by (simp add: set_update_distinct e_def)
  have other: "name x \<noteq> name e" if "x \<in> set (employees st)" "x \<noteq> e" for x
    using inj that e_in by (auto dest: inj_onD)
  have cell: "set (schedule_grid st d s) =
      name ` {x \<in> set (employees st). schedule x d = Some s}" for d s
    using g by (simp add: grid_is_assignments_def)
  have ne': "name e' = name e"
    by (simp add: e'_def)
  have se': "schedule e' d = (if d = day then Some shift else schedule e d)" for d
    by (simp add: e'_def)
  have "unique_names (assign st i day shift)"
    using u names by (simp add: st' unique_names_def)
  moreover have "grid_is_assignments (assign st i day shift)"
    unfolding grid_is_assignments_def
  proof (intro allI)
    fix d s
    define F where "F = {x \<in> set (employees st). schedule x d = Some s}"
    define F' where "F' = {x \<in> insert e' (set (employees st) - {e}). schedule x d = Some s}"
    have old: "set (schedule_grid st d s) = name ` F"
      by (simp add: cell F_def)
    have new: "set (schedule_grid (assign st i day shift) d s) =
        (if d = day \<and> s = shift then insert (name e) (name ` F) else name ` F)"
      using old by (auto simp add: st')
    have F'_eq: "F' = (if schedule e' d = Some s then {e'} else {}) \<union> (F - {e})"
      unfolding F'_def F_def by auto
    have img: "name ` F' =
        (if d = day \<and> s = shift then insert (name e) (name ` F) else name ` F)"
    proof (cases "d = day")
      case True
      then have "e \<notin> F"
        using none by (simp add: F_def)
      then have "F - {e} = F" by simp
      then show ?thesis
        using True by (simp add: F'_eq se' ne')
    next
      case False
      show ?thesis
      proof (cases "schedule e d = Some s")
        case True
        then have "e \<in> F"
          using e_in by (simp add: F_def)
        then have "name ` F = insert (name e) (name ` (F - {e}))"
          by blast
        then show ?thesis
          using False True by (simp add: F'_eq se' ne')
      next
        case no: False
        then have "e \<notin> F"
          by (simp add: F_def)
        then have "F - {e} = F" by simp
        then show ?thesis
          using False no by (simp add: F'_eq se')
      qed
    qed
    have "employees (assign st i day shift) = (employees st)[i := e']"
      by (simp add: st')
    then have "{x \<in> set (employees (assign st i day shift)). schedule x d = Some s} = F'"
      by (simp add: set' F'_def)
    then show "set (schedule_grid (assign st i day shift) d s) =
        name ` {x \<in> set (employees (assign st i day shift)). schedule x d = Some s}"
      using new img by simp
  qed
  ultimately show ?thesis by (simp add: consistent_iff)
qed

lemma consistent_assign:
  "consistent st \<Longrightarrow> i < length (employees st) \<Longrightarrow> consistent (assign st i day shift)"
  by (cases "can_work_day (employees st ! i) day")
    (simp_all add: consistent_assign_free assign_blocked)

lemma consistent_n_assign:
  "consistent_n n st \<Longrightarrow> i < n \<Longrightarrow> consistent_n n (assign st i day shift)"
  by (simp add: consistent_n_def consistent_assign)

lemma consistent_n_print: "consistent_n n st \<Longrightarrow> consistent_n n (print_msg st m)"
  by (simp add: consistent_n_def consistent_print)

lemma consistent_resolve:
  "consistent st \<Longrightarrow> i < length (employees st) \<Longrightarrow> consistent (resolve_conflict st i day shift)"
  using resolve_conflict_pres
    [where P = "consistent_n (length (employees st))" and V = "\<lambda>i. i < length (employees st)"
      and st = st and i = i and d = day and p = shift]
  by (simp add: consistent_n_def consistent_assign consistent_print)

lemma consistent_preferred: "consistent st \<Longrightarrow> consistent (assign_preferred_shifts st)"
  using assign_preferred_shifts_pres
    [where P = "consistent_n (length (employees st))" and V = "\<lambda>i. i < length (employees st)"
      and st = st]
  by (simp add: consistent_n_def consistent_assign consistent_print)

lemma consistent_staffing:
  assumes "consistent st" "is_shuffle shuffle"
  shows "consistent (ensure_minimum_staffing shuffle st)"
proof -
  have "consistent_n (length (employees st)) (ensure_minimum_staffing shuffle st)"
  proof (rule ensure_minimum_staffing_pres
      [where P = "consistent_n (length (employees st))"
        and V = "\<lambda>i. i < length (employees st)"])
    show "consistent_n (length (employees st)) st"
      using assms(1) by (simp add: consistent_n_def)
  next
    fix st' d s
    assume "consistent_n (length (employees st)) st'"
    then show "\<forall>i\<in>set (shuffle d s (get_available_employees st' d)). i < length (employees st)"
      using assms(2) by (auto simp add: set_shuffle consistent_n_def dest: available_in_range)
  qed (simp_all add: consistent_n_assign consistent_n_print)
  then show ?thesis by (simp add: consistent_n_def)
qed

text \<open>
  Claim C2. With names that identify the employees, the grid and the employee records agree
  (\<open>consistent\<close>: an employee's name is in the cell of a day and shift exactly when the
  employee's schedule sends the day to the shift, and a cell holds no other names) after
  the reset, and the agreement is kept by every call of \<open>_assign\<close> on an employee of the
  roster, by conflict resolution, by the preferred-assignment phase, and by the backfill
  phase when the shuffle permutes its argument; so it holds after a complete run.
\<close>

theorem grid_consistency:
  "(unique_names st \<longrightarrow> consistent (reset_schedules st)) \<and>
   (consistent st \<and> i < length (employees st) \<longrightarrow> consistent (assign st i day shift)) \<and>
   (consistent st \<and> i < length (employees st) \<longrightarrow>
      consistent (resolve_conflict st i day shift)) \<and>
   (consistent st \<longrightarrow> consistent (assign_preferred_shifts st)) \<and>
   (consistent st \<and> is_shuffle shuffle \<longrightarrow>
      consistent (ensure_minimum_staffing shuffle st)) \<and>
   (unique_names st \<and> is_shuffle shuffle \<longrightarrow> consistent (assign_shifts shuffle st))"
  by (simp add: consistent_reset consistent_assign consistent_resolve consistent_preferred
      consistent_staffing assign_shifts_def)

theorem grid_consistency_witness:
  "unique_names demo \<and> is_shuffle (\<lambda>day shift. rev) \<and>
   0 < length (employees (reset_schedules demo)) \<and>
   consistent (reset_schedules demo) \<and>
   consistent (assign (reset_schedules demo) 0 1 EVENING) \<and>
   consistent (resolve_conflict (reset_schedules demo) 0 1 EVENING) \<and>
   consistent (assign_preferred_shifts (reset_schedules demo)) \<and>
   consistent (ensure_minimum_staffing (\<lambda>day shift. rev) (reset_schedules demo)) \<and>
   consistent (assign_shifts (\<lambda>day shift. rev) demo)"
proof -
  have len: "0 < length (employees (reset_schedules demo))"
    by (simp add: reset_schedules_def demo_def)
  show ?thesis
    using grid_consistency [of demo 0 1 EVENING "\<lambda>day shift. rev"]
      grid_consistency [of "reset_schedules demo" 0 1 EVENING "\<lambda>day shift. rev"]
      unique_names_demo is_shuffle_rev len
    by blast
qed

section \<open>Conflict resolution follows the search order\<close>

lemma find_pairs:
  "find (\<lambda>(d, s). P d s) (map (\<lambda>s. (d, s)) xs) = map_option (Pair d) (find (P d) xs)"
  by (induction xs) auto

lemma find_skip: "\<not> P x \<Longrightarrow> find P (filter (\<lambda>s. s \<noteq> x) xs) = find P xs"
  by (induction xs) auto

lemma find_app:
  "find P (xs @ ys) = (case find P xs of None \<Rightarrow> find P ys | Some x \<Rightarrow> Some x)"
  by (induction xs) auto

lemma try_other_shifts_find:
  "try_other_shifts st i day shift xs =
     map_option (\<lambda>s. resolved st i day shift (day, s))
       (find (can_assign st i day) (filter (\<lambda>s. s \<noteq> shift) xs))"
  by (induction xs) (auto simp add: resolved_def remark_for_def)

lemma try_any_shift_find:
  "d \<noteq> day \<Longrightarrow> \<not> can_assign st i d shift \<Longrightarrow>
   try_any_shift st i d xs =
     map_option (\<lambda>s. resolved st i day shift (d, s))
       (find (can_assign st i d) (filter (\<lambda>s. s \<noteq> shift) xs))"
  by (induction xs) (auto simp add: resolved_def remark_for_def)

lemma try_other_days_find:
  "try_other_days st i day shift ds =
     map_option (resolved st i day shift)
       (find (\<lambda>(d, s). can_assign st i d s)
          (concat (map (\<lambda>d. (d, shift) # map (\<lambda>s. (d, s)) (other_shifts shift))
             (filter (\<lambda>d. d \<noteq> day) ds))))"
proof (induction ds)
  case Nil
  then show ?case by simp
next
  case (Cons d ds)
  show ?case
  proof (cases "d = day")
    case True
    with Cons show ?thesis by simp
  next
    case False
    show ?thesis
    proof (cases "can_assign st i d shift")
      case True
      with False show ?thesis
        by (simp add: resolved_def remark_for_def)
    next
      case no: False
      show ?thesis
        using False no Cons
        by (simp add: try_any_shift_find [OF False no] find_app find_pairs other_shifts_def
            split: option.splits)
    qed
  qed
qed

lemma resolve_conflict_first_passing:
  "resolve_conflict st i day shift =
     (case first_passing st i day shift of
        None \<Rightarrow> print_msg st (CouldNotAssign (name (employees st ! i)))
      | Some slot \<Rightarrow> resolved st i day shift slot)"
  by (simp add: resolve_conflict_def first_passing_def search_order_def find_app find_pairs
      try_other_shifts_find try_other_days_find other_shifts_def split: option.splits)

lemma scenario_c_ninth: "employees scenario_c ! 8 = set_preference (new_employee ''P9'') 1 EVENING"
  by (simp add: scenario_c_def tuesday_evening_crew_def)

lemma scenario_c_grid:
  "schedule_grid scenario_c day shift =
     (if day = 1 \<and> shift = EVENING then tuesday_evening_crew else [])"
  by (simp add: scenario_c_def)

text \<open>
  Claim C5. When the preference (day, shift) of an employee fails the direct check,
  \<open>_resolve_conflict\<close> assigns the employee to exactly the first slot of the search order
  (other shifts of the same day in enumeration order, then the other days in weekday
  order, preferred shift first and then the other shifts in enumeration order) that passes
  the check, and prints the line for that slot; when no slot passes, it only prints the
  warning. In Scenario C (evening of Tuesday full, morning and afternoon open) the
  employee lands on Tuesday morning.
\<close>

theorem conflict_search_order:
  assumes "\<not> can_assign st i day shift" and "day \<in> set days"
  shows "resolve_conflict st i day shift =
     (case first_passing st i day shift of
        None \<Rightarrow> print_msg st (CouldNotAssign (name (employees st ! i)))
      | Some (d, s) \<Rightarrow>
          print_msg (assign st i d s)
            (ConflictResolved (name (employees st ! i)) d s (remark_for day shift d s)))"
  by (simp add: resolve_conflict_first_passing resolved_def split: option.splits)

theorem conflict_search_order_witness:
  "\<not> can_assign scenario_c 8 1 EVENING \<and>
   can_assign scenario_c 8 1 MORNING \<and>
   can_assign scenario_c 8 1 AFTERNOON \<and>
   search_order 1 EVENING =
     [(1, MORNING), (1, AFTERNOON),
      (0, EVENING), (0, MORNING), (0, AFTERNOON),
      (2, EVENING), (2, MORNING), (2, AFTERNOON),
      (3, EVENING), (3, MORNING), (3, AFTERNOON),
      (4, EVENING), (4, MORNING), (4, AFTERNOON),
      (5, EVENING), (5, MORNING), (5, AFTERNOON),
      (6, EVENING), (6, MORNING), (6, AFTERNOON)] \<and>
   resolve_conflict scenario_c 8 1 EVENING =
     print_msg (assign scenario_c 8 1 MORNING)
       (ConflictResolved ''P9'' 1 MORNING PreferredShiftFull) \<and>
   schedule (employees (resolve_conflict scenario_c 8 1 EVENING) ! 8) 1 = Some MORNING \<and>
   schedule_grid (resolve_conflict scenario_c 8 1 EVENING) 1 MORNING = [''P9''] \<and>
   schedule_grid (resolve_conflict scenario_c 8 1 EVENING) 1 AFTERNOON = []"
proof -
  have no: "\<not> can_assign scenario_c 8 1 EVENING"
    by (simp add: can_assign_iff scenario_c_grid tuesday_evening_crew_def)
  have cw: "can_work_day (employees scenario_c ! 8) 1"
    by (simp add: scenario_c_ninth can_work_day_iff set_preference_def new_employee_def)
  have yes: "can_assign scenario_c 8 1 MORNING" "can_assign scenario_c 8 1 AFTERNOON"
    using cw by (simp_all add: can_assign_iff scenario_c_grid)
  have order: "search_order 1 EVENING =
     [(1, MORNING), (1, AFTERNOON),
      (0, EVENING), (0, MORNING), (0, AFTERNOON),
      (2, EVENING), (2, MORNING), (2, AFTERNOON),
      (3, EVENING), (3, MORNING), (3, AFTERNOON),
      (4, EVENING), (4, MORNING), (4, AFTERNOON),
      (5, EVENING), (5, MORNING), (5, AFTERNOON),
      (6, EVENING), (6, MORNING), (6, AFTERNOON)]"
    by (simp add: search_order_def other_shifts_def shifts_def days_def)
  have first: "first_passing scenario_c 8 1 EVENING = Some (1, MORNING)"
    using yes by (simp add: first_passing_def order)
  have day: "(1::int) \<in> set days"
    by (simp add: days_def)
  have res: "resolve_conflict scenario_c 8 1 EVENING =
     print_msg (assign scenario_c 8 1 MORNING)
       (ConflictResolved ''P9'' 1 MORNING PreferredShiftFull)"
    using conflict_search_order [OF no day]
    by (simp add: first remark_for_def scenario_c_ninth set_preference_def new_employee_def)
  have len: "8 < length (employees scenario_c)"
    by (simp add: scenario_c_def tuesday_evening_crew_def)
  have "schedule (employees (resolve_conflict scenario_c 8 1 EVENING) ! 8) 1 = Some MORNING"
    using len by (simp add: res assign_guarded [OF cw])
  moreover have "schedule_grid (resolve_conflict scenario_c 8 1 EVENING) 1 MORNING = [''P9'']"
    by (simp add: res assign_guarded [OF cw] scenario_c_grid scenario_c_ninth
        set_preference_def new_employee_def)
  moreover have "schedule_grid (resolve_conflict scenario_c 8 1 EVENING) 1 AFTERNOON = []"
    by (simp add: res assign_guarded [OF cw] scenario_c_grid)
  ultimately show ?thesis
    using no yes order res by simp
qed

section \<open>The preferred-assignment phase stops at five days\<close>

lemma assign_preferred_days_done:
  "MAX_WORK_DAYS_PER_WEEK \<le> days_worked (employees st ! i) \<Longrightarrow>
   assign_preferred_days st i ds = st"
  by (cases ds) simp_all

lemma assign_preferred_days_append:
  "MAX_WORK_DAYS_PER_WEEK \<le> days_worked (employees (assign_preferred_days st i ds1) ! i) \<Longrightarrow>
   assign_preferred_days st i (ds1 @ ds2) = assign_preferred_days st i ds1"
proof (induction ds1 arbitrary: st)
  case Nil
  then show ?case by (simp add: assign_preferred_days_done)
next
  case (Cons d ds1)
  then show ?case
    by (cases "MAX_WORK_DAYS_PER_WEEK \<le> days_worked (employees st ! i)")
      (auto split: option.splits)
qed

lemma keen_five:
  "assign_preferred_days keen 0 [0, 1, 2, 3, 4] =
     \<lparr>employees =
        [\<lparr>name = ''Ann'',
          preferences = [0 \<mapsto> MORNING, 1 \<mapsto> MORNING, 2 \<mapsto> MORNING, 3 \<mapsto> MORNING,
            4 \<mapsto> MORNING, 5 \<mapsto> MORNING],
          schedule = [0 \<mapsto> MORNING, 1 \<mapsto> MORNING, 2 \<mapsto> MORNING, 3 \<mapsto> MORNING,
            4 \<mapsto> MORNING],
          days_worked = 5\<rparr>],
      schedule_grid = (\<lambda>day shift. [])
        (0 := (\<lambda>shift. [])(MORNING := [''Ann'']),
         1 := (\<lambda>shift. [])(MORNING := [''Ann'']),
         2 := (\<lambda>shift. [])(MORNING := [''Ann'']),
         3 := (\<lambda>shift. [])(MORNING := [''Ann'']),
         4 := (\<lambda>shift. [])(MORNING := [''Ann''])),
      printed = []\<rparr>"
  by (simp add: keen_def new_scheduler_def new_employee_def get_preference_def
      can_assign_iff can_work_day_iff assign_def assign_shift_def MAX_WORK_DAYS_PER_WEEK_def)

text \<open>
  Claim C6. Once the counter of the employee has reached 5, the loop over the days does
  nothing more for that employee, whatever days remain and whatever preferences they
  carry: started with the counter at 5 it returns the state unchanged, and as soon as
  the counter is 5 after a prefix of the days, the run over the whole list is the run over
  that prefix.
\<close>

theorem phase2_truncation:
  "(5 \<le> days_worked (employees st ! i) \<longrightarrow> assign_preferred_days st i ds = st) \<and>
   (5 \<le> days_worked (employees (assign_preferred_days st i ds1) ! i) \<longrightarrow>
      assign_preferred_days st i (ds1 @ ds2) = assign_preferred_days st i ds1)"
  using assign_preferred_days_done [of st i ds] assign_preferred_days_append [of st i ds1 ds2]
  by (simp add: MAX_WORK_DAYS_PER_WEEK_def)

theorem phase2_truncation_witness:
  "5 \<le> days_worked (employees (assign_preferred_days keen 0 [0, 1, 2, 3, 4]) ! 0) \<and>
   assign_preferred_days keen 0 days = assign_preferred_days keen 0 [0, 1, 2, 3, 4] \<and>
   get_preference (employees (assign_preferred_days keen 0 days) ! 0) 5 = Some MORNING \<and>
   schedule (employees (assign_preferred_days keen 0 days) ! 0) 5 = None \<and>
   printed (assign_preferred_days keen 0 days) = [] \<and>
   assign_preferred_days (assign_preferred_days keen 0 [0, 1, 2, 3, 4]) 0 [5, 6] =
     assign_preferred_days keen 0 [0, 1, 2, 3, 4]"
proof -
  have five: "5 \<le> days_worked (employees (assign_preferred_days keen 0 [0, 1, 2, 3, 4]) ! 0)"
    by (subst keen_five) simp
  have split: "days = [0, 1, 2, 3, 4] @ [5, 6]"
    by (simp add: days_def)
  have eq: "assign_preferred_days keen 0 days = assign_preferred_days keen 0 [0, 1, 2, 3, 4]"
    using phase2_truncation [of keen 0 "[]" "[0, 1, 2, 3, 4]" "[5, 6]"] five
    unfolding split by blast
  have stop: "assign_preferred_days (assign_preferred_days keen 0 [0, 1, 2, 3, 4]) 0 [5, 6] =
      assign_preferred_days keen 0 [0, 1, 2, 3, 4]"
    using phase2_truncation
      [of "assign_preferred_days keen 0 [0, 1, 2, 3, 4]" 0 "[5, 6]" "[]" "[]"] five
    by blast
  show ?thesis
    using five stop unfolding eq keen_five by (simp add: get_preference_def)
qed

section \<open>The backfill phase\<close>

lemma cell_after_assign:
  "can_assign st i day shift \<Longrightarrow>
   int (length (schedule_grid (assign st i day shift) day shift)) =
     int (length (schedule_grid st day shift)) + 1"
  by (simp add: can_assign_iff assign_guarded)

lemma fill_shift_fill_until:
  "fill_shift st day shift needed cands assigned = (st', assigned') \<Longrightarrow>
   st' = fill_until st day shift (nat (needed - assigned)) cands \<and>
   assigned' - assigned =
     int (length (schedule_grid st' day shift)) - int (length (schedule_grid st day shift))"
proof (induction cands arbitrary: st assigned)
  case Nil
  then show ?case by (cases "nat (needed - assigned)") auto
next
  case (Cons i rest)
  show ?case
  proof (cases "needed \<le> assigned")
    case True
    with Cons.prems show ?thesis by simp
  next
    case False
    then have suc: "nat (needed - assigned) = Suc (nat (needed - (assigned + 1)))"
      by simp
    show ?thesis
    proof (cases "can_assign st i day shift")
      case True
      then have "fill_shift (assign st i day shift) day shift needed rest (assigned + 1) =
          (st', assigned')"
        using Cons.prems False by simp
      from Cons.IH [OF this] show ?thesis
        using True by (simp add: suc cell_after_assign)
    next
      case no: False
      then have "fill_shift st day shift needed rest assigned = (st', assigned')"
        using Cons.prems False by simp
      from Cons.IH [OF this] show ?thesis
        using no by (simp add: suc)
    qed
  qed
qed

lemma staff_shift_backfill_cell:
  "staff_shift shuffle st day shift = backfill_cell shuffle st day shift"
proof -
  define cur where "cur = int (length (schedule_grid st day shift))"
  define cands where "cands = shuffle day shift (get_available_employees st day)"
  obtain st' assigned where
    eq: "fill_shift st day shift (2 - cur) cands 0 = (st', assigned)"
    by (cases "fill_shift st day shift (2 - cur) cands 0")
  from fill_shift_fill_until [OF eq]
  have st': "st' = fill_until st day shift (nat (2 - cur)) cands"
    and cnt: "assigned = int (length (schedule_grid st' day shift)) - cur"
    by (simp_all add: cur_def)
  show ?thesis
  proof (cases "cur < 2")
    case True
    have "staff_shift shuffle st day shift =
        (if assigned < 2 - cur
         then print_msg st' (Understaffed day shift (2 - cur - assigned) (cur + assigned))
         else st')"
      using True eq
      by (simp add: staff_shift_def Let_def MIN_EMPLOYEES_PER_SHIFT_def cur_def [symmetric]
          cands_def [symmetric])
    moreover have "backfill_cell shuffle st day shift =
        (if int (length (schedule_grid st' day shift)) < 2
         then print_msg st' (Understaffed day shift
                (2 - int (length (schedule_grid st' day shift)))
                (int (length (schedule_grid st' day shift))))
         else st')"
      using True st'
      by (simp add: backfill_cell_def Let_def cur_def [symmetric] cands_def
          get_available_employees_def max_def)
    ultimately show ?thesis
      by (simp add: cnt)
  next
    case False
    then show ?thesis
      by (simp add: staff_shift_def backfill_cell_def Let_def MIN_EMPLOYEES_PER_SHIFT_def
          cur_def [symmetric] max_def)
  qed
qed

lemma foldl_product:
  "foldl (\<lambda>st (x, y). g st x y) st (List.product xs ys) =
   foldl (\<lambda>st x. foldl (\<lambda>st y. g st x y) st ys) st xs"
proof (induction xs arbitrary: st)
  case Nil
  then show ?case by simp
next
  case (Cons x xs)
  have "foldl (\<lambda>st (x, y). g st x y) st (map (Pair x) ys) = foldl (\<lambda>st y. g st x y) st ys"
    for st
    by (induction ys arbitrary: st) simp_all
  then show ?case
    using Cons by simp
qed

text \<open>
  Claim C7. \<open>_ensure_minimum_staffing\<close> is the backfill the specification describes
  (\<open>backfill\<close>): for each day in order and each shift in enumeration order, the shortfall
  \<open>max 0 (2 - size)\<close> is computed; when it is positive, exactly the employees who can
  work the day are collected, shuffled once, and walked under the re-evaluated check until
  the shortfall is filled or the candidates are exhausted; a cell still below 2 gets the
  understaffed line carrying the day, the shift and the remaining shortfall, and nothing
  else is done for it. This holds for every state and every behaviour of the shuffle.
\<close>

theorem backfill_refines:
  "ensure_minimum_staffing shuffle st = backfill shuffle st"
  by (simp add: ensure_minimum_staffing_def backfill_def foldl_product
      staff_shift_backfill_cell)

section \<open>Unresolved preferences\<close>

lemma both_fail_blocked:
  assumes "\<not> can_assign st i day shift" "both_strategies_fail st i day shift"
  shows "list_all (\<lambda>s. \<not> can_assign st i day s) shifts"
proof -
  have "find (can_assign st i day) (filter (\<lambda>s. s \<noteq> shift) shifts) = None"
    using assms(2) by (simp add: both_strategies_fail_def try_other_shifts_find)
  then have other: "\<not> can_assign st i day s" if "s \<noteq> shift" for s
    using that by (cases s) (auto simp add: find_None_iff shifts_def)
  have "\<not> can_assign st i day s" for s
    using other [of s] assms(1) by (cases "s = shift") simp_all
  then show ?thesis
    by (simp add: list_all_iff)
qed

lemma slot_closed_print: "slot_closed i day v st \<Longrightarrow> slot_closed i day v (print_msg st m)"
  by (simp add: slot_closed_def can_assign_iff)

lemma slot_closed_assign:
  assumes "slot_closed i day v st" "can_assign st j d s"
  shows "slot_closed i day v (assign st j d s)"
proof -
  have cw: "can_work_day (employees st ! j) d"
    using assms(2) by (simp add: can_assign_iff)
  have blocked: "\<not> can_assign st i day s'" for s'
    using assms(1) by (cases s') (simp_all add: slot_closed_def shifts_def)
  have differ: "\<not> (j = i \<and> d = day)"
    using blocked assms(2) by blast
  have cells: "length (schedule_grid st day s') \<le> length (schedule_grid (assign st j d s) day s')"
    for s'
    by (simp add: assign_guarded [OF cw])
  have emp: "schedule (employees (assign st j d s) ! i) day = schedule (employees st ! i) day \<and>
      days_worked (employees st ! i) \<le> days_worked (employees (assign st j d s) ! i)"
  proof (cases "j = i")
    case True
    then have "d \<noteq> day" using differ by simp
    then show ?thesis
      using True cw
      by (cases "i < length (employees st)") (simp_all add: assign_guarded list_update_beyond)
  next
    case False
    then show ?thesis
      by (simp add: assign_guarded [OF cw])
  qed
  have "\<not> can_assign (assign st j d s) i day s'" for s'
    using blocked [of s'] emp cells [of s']
    by (auto simp add: can_assign_iff can_work_day_iff)
  then show ?thesis
    using assms(1) emp by (simp add: slot_closed_def list_all_iff)
qed

lemma slot_closed_rest_of_run:
  assumes "slot_closed i day v st"
  shows "slot_closed i day v (rest_of_run shuffle st j later_days later_employees)"
proof -
  note step = slot_closed_assign [of i day v]
  note pr = slot_closed_print [of i day v]
  have days: "slot_closed i day v (assign_preferred_days st' k ds)"
    if "slot_closed i day v st'" for st' k ds
    by (rule assign_preferred_days_pres [where P = "slot_closed i day v" and V = "\<lambda>i. True"])
      (simp_all add: step pr that)
  have "slot_closed i day v
      (foldl (\<lambda>st j. assign_preferred_days st j days)
        (assign_preferred_days st j later_days) later_employees)"
    by (rule foldl_pres) (simp_all add: days assms)
  then show ?thesis
    unfolding rest_of_run_def
    by (intro ensure_minimum_staffing_pres
        [where P = "slot_closed i day v" and V = "\<lambda>i. True"])
      (simp_all add: step pr)
qed

lemma packed_zed: "employees packed ! 24 = zed"
  by (simp add: packed_def crowd_def crowd_names_def)

lemma packed_grid:
  "schedule_grid packed day shift =
     (if 4 \<le> day \<and> day \<le> 6 then crowd_names shift
      else if 0 \<le> day \<and> day \<le> 3 \<and> shift = MORNING then [''Zed'']
      else [])"
  by (simp add: packed_def)

lemma length_crowd_names: "length (crowd_names shift) = 8"
  by (cases shift) (simp_all add: crowd_names_def)

lemma packed_can_assign:
  "can_assign packed 24 day shift \<longleftrightarrow> \<not> (0 \<le> day \<and> day \<le> 6)"
  by (auto simp add: can_assign_iff can_work_day_iff packed_zed packed_grid zed_def
      length_crowd_names)

lemma packed_fails: "day \<in> set days \<Longrightarrow> both_strategies_fail packed 24 day shift"
  by (cases shift)
    (auto simp add: both_strategies_fail_def shifts_def days_def packed_can_assign)

lemma packed_day4: "(4::int) \<in> set days"
  by (simp add: days_def)

lemma packed_day5: "(5::int) \<in> set days"
  by (simp add: days_def)

text \<open>
  Claim C8, as amended. When the direct check and both strategies fail for the
  preference (day, shift) of an employee, \<open>_resolve_conflict\<close> prints one warning, which
  names the employee and nothing else, and changes neither the employees nor the grid;
  and whatever the run still executes afterwards (later days of the employee, later
  employees, the backfill with any shuffle), the employee's entry for that day stays what
  it was.
\<close>

theorem unresolved_preference:
  assumes "\<not> can_assign st i day shift" and "both_strategies_fail st i day shift"
    and "day \<in> set days"
  shows "resolve_conflict st i day shift =
           print_msg st (CouldNotAssign (name (employees st ! i))) \<and>
         employees (resolve_conflict st i day shift) = employees st \<and>
         schedule_grid (resolve_conflict st i day shift) = schedule_grid st \<and>
         schedule (employees
             (rest_of_run shuffle (resolve_conflict st i day shift) i later_days
                later_employees) ! i) day =
           schedule (employees st ! i) day"
proof -
  have res: "resolve_conflict st i day shift =
      print_msg st (CouldNotAssign (name (employees st ! i)))"
    using assms(2) by (simp add: both_strategies_fail_def resolve_conflict_def)
  have "slot_closed i day (schedule (employees st ! i) day) st"
    using both_fail_blocked [OF assms(1,2)] by (simp add: slot_closed_def)
  then have "slot_closed i day (schedule (employees st ! i) day)
      (resolve_conflict st i day shift)"
    unfolding res by (rule slot_closed_print)
  then have "slot_closed i day (schedule (employees st ! i) day)
      (rest_of_run shuffle (resolve_conflict st i day shift) i later_days later_employees)"
    by (rule slot_closed_rest_of_run)
  then show ?thesis
    using res by (simp add: slot_closed_def)
qed

theorem unresolved_preference_witness:
  "\<not> can_assign packed 24 4 MORNING \<and>
   both_strategies_fail packed 24 4 MORNING \<and>
   get_preference (employees packed ! 24) 4 = Some MORNING \<and>
   resolve_conflict packed 24 4 MORNING = print_msg packed (CouldNotAssign ''Zed'') \<and>
   schedule (employees
       (rest_of_run (\<lambda>day shift. rev) (resolve_conflict packed 24 4 MORNING) 24 [5, 6] [])
         ! 24) 4 = None"
proof -
  have no: "\<not> can_assign packed 24 4 MORNING"
    by (simp add: packed_can_assign)
  have fail: "both_strategies_fail packed 24 4 MORNING"
    by (rule packed_fails [OF packed_day4])
  have pref: "get_preference (employees packed ! 24) 4 = Some MORNING"
    by (simp add: packed_zed zed_def get_preference_def)
  have before: "schedule (employees packed ! 24) 4 = None" "name (employees packed ! 24) = ''Zed''"
    by (simp_all add: packed_zed zed_def)
  from unresolved_preference [OF no fail packed_day4, of "\<lambda>day shift. rev" "[5, 6]" "[]"]
  have "resolve_conflict packed 24 4 MORNING = print_msg packed (CouldNotAssign ''Zed'')"
    and "schedule (employees
       (rest_of_run (\<lambda>day shift. rev) (resolve_conflict packed 24 4 MORNING) 24 [5, 6] [])
         ! 24) 4 = None"
    unfolding before by blast+
  with no fail pref show ?thesis
    by blast
qed

text \<open>
  Claim C8 as stated fails: the warning does not identify the day and the shift. In the
  full house, Zed's preferences (day 4, morning) and (day 5, evening) both fail the direct
  check and both strategies, and the two calls print the same line and return the same
  state.
\<close>

theorem unresolved_warning_counterexample:
  "get_preference (employees packed ! 24) 4 = Some MORNING \<and>
   get_preference (employees packed ! 24) 5 = Some EVENING \<and>
   \<not> can_assign packed 24 4 MORNING \<and> both_strategies_fail packed 24 4 MORNING \<and>
   \<not> can_assign packed 24 5 EVENING \<and> both_strategies_fail packed 24 5 EVENING \<and>
   printed (resolve_conflict packed 24 4 MORNING) = [CouldNotAssign ''Zed''] \<and>
   printed (resolve_conflict packed 24 5 EVENING) = [CouldNotAssign ''Zed''] \<and>
   resolve_conflict packed 24 4 MORNING = resolve_conflict packed 24 5 EVENING"
proof -
  have res: "resolve_conflict packed 24 day shift = print_msg packed (CouldNotAssign ''Zed'')"
    if "day \<in> set days" for day shift
    using packed_fails [OF that, of shift]
    by (simp add: both_strategies_fail_def resolve_conflict_def packed_zed zed_def)
  have "printed packed = []"
    by (simp add: packed_def)
  then show ?thesis
    using packed_fails [OF packed_day4, of MORNING] packed_fails [OF packed_day5, of EVENING]
    by (simp add: res packed_day4 packed_day5 packed_can_assign packed_zed zed_def
        get_preference_def)
qed

end
